theory Spec2Isabelle
  imports Complex_Main "HOL-Library.Sublist"
begin

section \<open>ModalButton and ModalForm\<close>

text \<open>
  The observable steps of \<open>ModalForm.#confirm\<close>, in the order the code performs them:
  the calls on the slotted form, the assignments to the reactive properties and the
  event dispatched on the element.  \<open>DispatchEvent name bubbles composed\<close> is
  \<open>this.dispatchEvent(new CustomEvent(name, {bubbles, composed}))\<close>.
\<close>

datatype event =
    ReportValidity
  | SetLoading bool
  | SetLocked bool
  | Submit
  | SetOpen bool
  | FormReset
  | DispatchEvent string bool bool

text \<open>
  \<open>ModalButton\<close>: \<open>dialog\<close> is \<open>#dialogRef.value\<close>, \<open>None\<close> while no dialog element is
  bound and \<open>Some b\<close> for a bound dialog whose \<open>open\<close> attribute is \<open>b\<close>.  The log of
  events is carried with the element.
\<close>

record ModalButton =
  dialog :: "bool option"
  locked :: bool
  events :: "event list"

record ModalForm = ModalButton +
  closeAfterSuccessfulSubmit :: bool
  showSubmitButton :: bool
  loading :: bool
  cancelText :: string

text \<open>
  An element assigned to the default slot.  \<open>instanceofForm\<close> is the test
  \<open>element instanceof Form\<close>; \<open>validity\<close> is what \<open>reportValidity()\<close> returns and
  \<open>submission\<close> how the promise returned by \<open>submit(event)\<close> settles: \<open>None\<close> when it
  resolves, \<open>Some e\<close> when it rejects with \<open>e\<close>.
\<close>

record 'e slotted =
  instanceofForm :: bool
  validity :: bool
  submission :: "'e option"

text \<open>What \<open>#confirm\<close> throws: its own \<open>Error\<close>, or the rejection it re-throws.\<close>

datatype 'e thrown = Error string | Rethrown 'e

definition record_event :: "event \<Rightarrow> ModalForm \<Rightarrow> ModalForm" where
  "record_event ev m = m\<lparr>events := events m @ [ev]\<rparr>"

text \<open>The getter and the setter of \<open>ModalButton.open\<close>.\<close>

definition get_open :: "ModalForm \<Rightarrow> bool" where
  "get_open m = (case dialog m of None \<Rightarrow> False | Some b \<Rightarrow> b)"

definition set_open :: "bool \<Rightarrow> ModalForm \<Rightarrow> ModalForm" where
  "set_open v m =
     (let m1 = record_event (SetOpen v) m
      in case dialog m1 of
           None \<Rightarrow> m1
         | Some b \<Rightarrow> m1\<lparr>dialog := Some v\<rparr>)"

definition set_loading :: "bool \<Rightarrow> ModalForm \<Rightarrow> ModalForm" where
  "set_loading v m = (record_event (SetLoading v) m)\<lparr>loading := v\<rparr>"

definition set_locked :: "bool \<Rightarrow> ModalForm \<Rightarrow> ModalForm" where
  "set_locked v m = (record_event (SetLocked v) m)\<lparr>locked := v\<rparr>"

text \<open>\<open>ModalButton.close\<close> and \<open>ModalButton.show\<close>.\<close>

definition close_modal :: "ModalForm \<Rightarrow> ModalForm" where
  "close_modal m = (case dialog m of None \<Rightarrow> m | Some b \<Rightarrow> m\<lparr>dialog := Some False\<rparr>)"

definition show_modal :: "ModalForm \<Rightarrow> ModalForm" where
  "show_modal m = set_open True m"

text \<open>
  \<open>defaultSlotElements\<close>: the elements assigned to the default slot, and the empty
  array while the slot reference is unbound.
\<close>

definition defaultSlotElements :: "'e slotted list option \<Rightarrow> 'e slotted list" where
  "defaultSlotElements slot = (case slot of None \<Rightarrow> [] | Some els \<Rightarrow> els)"

text \<open>
  The two halves of \<open>#confirm\<close> after the form has reported itself valid.
  \<open>begin_submission\<close> is \<open>this.loading = true; this.locked = true\<close> followed by the
  call \<open>form.submit(...)\<close>: its result is the element at the moment \<open>submit\<close> is called.
  \<open>settle_submission\<close> is the \<open>then\<close> and the \<open>catch\<close> callback on the promise that
  \<open>submit\<close> returned, for a promise that resolved (\<open>None\<close>) or rejected (\<open>Some e\<close>).
\<close>

definition begin_submission :: "ModalForm \<Rightarrow> ModalForm" where
  "begin_submission m1 =
     (let m2 = set_locked True (set_loading True m1)
      in record_event Submit m2)"

definition settle_submission ::
  "string \<Rightarrow> 'e option \<Rightarrow> ModalForm \<Rightarrow> ('e thrown + unit) \<times> ModalForm" where
  "settle_submission EVENT_REFRESH settled m3 =
     (case settled of
        None \<Rightarrow>
          let m4 =
                (if closeAfterSuccessfulSubmit m3
                 then record_event (DispatchEvent EVENT_REFRESH True True)
                        (record_event FormReset (set_open False m3))
                 else m3)
          in (Inr (), set_locked False (set_loading False m4))
      | Some e \<Rightarrow>
          (Inl (Rethrown e), set_locked False (set_loading False m3)))"

text \<open>
  \<open>ModalForm.#confirm\<close>.  \<open>EVENT_REFRESH\<close> (a constant of \<open>#common/constants\<close>) and the
  localisation function \<open>msg\<close> are parameters.  The result is \<open>Inr ()\<close> when the promise
  of the async function resolves and \<open>Inl t\<close> when it rejects with \<open>t\<close>.
\<close>

definition confirm ::
  "string \<Rightarrow> (string \<Rightarrow> string) \<Rightarrow> 'e slotted list option \<Rightarrow> ModalForm
     \<Rightarrow> ('e thrown + unit) \<times> ModalForm" where
  "confirm EVENT_REFRESH msg slot m =
     (case List.find instanceofForm (defaultSlotElements slot) of
        None \<Rightarrow> (Inl (Error (msg ''No form found within the default slot'')), m)
      | Some form \<Rightarrow>
          let m1 = record_event ReportValidity m
          in if \<not> validity form
             then (Inr (), set_locked False (set_loading False m1))
             else settle_submission EVENT_REFRESH (submission form) (begin_submission m1))"

text \<open>The events a run of \<open>#confirm\<close> added to the log.\<close>

definition confirm_events ::
  "string \<Rightarrow> (string \<Rightarrow> string) \<Rightarrow> 'e slotted list option \<Rightarrow> ModalForm \<Rightarrow> event list" where
  "confirm_events EVENT_REFRESH msg slot m =
     drop (length (events m)) (events (snd (confirm EVENT_REFRESH msg slot m)))"

section \<open>The intersectionObserver decorator\<close>

text \<open>
  What a decorated element does to the outside: \<open>RequestUpdate name oldValue\<close> is
  \<open>this.requestUpdate(name, oldValue)\<close> (\<open>None\<close> for an argument that is missing or
  \<open>undefined\<close>), \<open>OnIntersection b\<close> the call \<open>options.onIntersection(b, entry)\<close>, and the
  other two the calls of the callbacks the decorator wraps.
\<close>

datatype effect =
    RequestUpdate "string option" "bool option"
  | OnIntersection bool
  | OriginalConnectedCallback
  | OriginalDisconnectedCallback

text \<open>
  The options the decorator reads in its callbacks: \<open>once\<close> (missing is falsy) and
  whether \<open>onIntersection\<close> was given.  \<open>root\<close>, \<open>rootMargin\<close> and \<open>threshold\<close> are only
  handed to the browser's observer.
\<close>

record IntersectionObserverOptions =
  once :: bool
  onIntersection :: bool

text \<open>
  The decorated element: \<open>privateKey\<close> is \<open>this[privateKey]\<close> (\<open>None\<close> while undefined),
  \<open>observerMap_has\<close> says whether \<open>observerMap\<close> holds an observer for the element,
  \<open>observing\<close> whether that observer observes it, and \<open>deferred\<close> whether the
  continuation on \<open>updateComplete\<close> that will call \<open>observe\<close> is pending.
\<close>

record LitElement =
  privateKey :: "bool option"
  hasUpdated :: bool
  observerMap_has :: bool
  observing :: bool
  deferred :: bool
  effects :: "effect list"

definition perform :: "effect \<Rightarrow> 'a LitElement_scheme \<Rightarrow> 'a LitElement_scheme" where
  "perform ef el = el\<lparr>effects := effects el @ [ef]\<rparr>"

definition requestUpdate ::
  "string option \<Rightarrow> bool option \<Rightarrow> 'a LitElement_scheme \<Rightarrow> 'a LitElement_scheme" where
  "requestUpdate name oldValue el = perform (RequestUpdate name oldValue) el"

text \<open>The accessor pair that \<open>Object.defineProperty(target, key, ...)\<close> installs.\<close>

definition get_key :: "'a LitElement_scheme \<Rightarrow> bool" where
  "get_key el = (case privateKey el of None \<Rightarrow> False | Some v \<Rightarrow> v)"

definition set_key :: "string \<Rightarrow> bool \<Rightarrow> 'a LitElement_scheme \<Rightarrow> 'a LitElement_scheme" where
  "set_key key v el =
     (let oldValue = privateKey el
      in requestUpdate (Some key) oldValue (el\<lparr>privateKey := Some v\<rparr>))"


text \<open>The continuation \<open>this.updateComplete.then(() => observer.observe(this))\<close>.\<close>

definition updateComplete :: "'a LitElement_scheme \<Rightarrow> 'a LitElement_scheme" where
  "updateComplete el =
     (if deferred el then el\<lparr>hasUpdated := True, observing := True, deferred := False\<rparr>
      else el\<lparr>hasUpdated := True\<rparr>)"

text \<open>
  The body of \<open>entries.forEach\<close> in the observer's callback, for an entry whose
  \<open>isIntersecting\<close> is the second argument, and the callback itself.
\<close>

definition on_entry ::
  "IntersectionObserverOptions \<Rightarrow> string \<Rightarrow> bool \<Rightarrow> 'a LitElement_scheme
     \<Rightarrow> 'a LitElement_scheme" where
  "on_entry options key isIntersecting el =
     (let currentValue = get_key el;
          e1 = (if currentValue \<noteq> isIntersecting
                then
                  let a = el\<lparr>privateKey := Some isIntersecting\<rparr>;
                      b = set_key key isIntersecting a;
                      c = (if onIntersection options
                           then perform (OnIntersection isIntersecting) b else b)
                  in requestUpdate (Some key) (Some currentValue) c
                else el)
      in if once options \<and> isIntersecting
         then e1\<lparr>observing := False, observerMap_has := False\<rparr>
         else e1)"

definition intersectionCallback ::
  "IntersectionObserverOptions \<Rightarrow> string \<Rightarrow> bool list \<Rightarrow> 'a LitElement_scheme
     \<Rightarrow> 'a LitElement_scheme" where
  "intersectionCallback options key entries el = fold (on_entry options key) entries el"

definition disconnectedCallback :: "'a LitElement_scheme \<Rightarrow> 'a LitElement_scheme" where
  "disconnectedCallback el =
     (let e1 = perform OriginalDisconnectedCallback el
      in if observerMap_has e1
         then e1\<lparr>observing := False, observerMap_has := False\<rparr>
         else e1)"

section \<open>ModelForm\<close>

text \<open>
  JavaScript numbers, as far as the code looks at them: whether the number is truthy, and
  which time value \<open>new Date(number)\<close> has.  A finite number is given by its rational
  value (both zeros are \<open>Finite 0\<close>).
\<close>

datatype number = NaN | PosInfinity | NegInfinity | Finite rat

definition number_truthy :: "number \<Rightarrow> bool" where
  "number_truthy n = (case n of NaN \<Rightarrow> False | Finite q \<Rightarrow> q \<noteq> 0 | _ \<Rightarrow> True)"

text \<open>The values \<open>instancePk\<close> can hold.\<close>

datatype pk = PkNull | PkUndefined | PkString string | PkNumber number

definition pk_truthy :: "pk \<Rightarrow> bool" where
  "pk_truthy p =
     (case p of PkNull \<Rightarrow> False | PkUndefined \<Rightarrow> False
      | PkString s \<Rightarrow> s \<noteq> [] | PkNumber n \<Rightarrow> number_truthy n)"

definition typeof_number :: "pk \<Rightarrow> bool" where
  "typeof_number p = (case p of PkNumber n \<Rightarrow> True | _ \<Rightarrow> False)"

text \<open>The guard of \<open>#refresh\<close>: \<open>!this.instancePk && typeof this.instancePk !== "number"\<close>.\<close>

definition no_instancePk :: "pk \<Rightarrow> bool" where
  "no_instancePk p = (\<not> pk_truthy p \<and> \<not> typeof_number p)"

text \<open>
  \<open>ModelForm\<close>, whose \<open>visible\<close> is decorated with \<open>intersectionObserver()\<close>.  \<open>inst\<close> is
  the property \<open>instance\<close> and \<open>None\<close> is \<open>null\<close>; \<open>'p\<close> is the type of the parsed
  errors.
\<close>

record ('i, 'p) ModelForm = LitElement +
  instancePk :: pk
  inst :: "'i option"
  error :: "'p option"
  loading :: bool

definition visible :: "'a LitElement_scheme \<Rightarrow> bool" where
  "visible el = get_key el"

definition hidden :: "('i, 'p) ModelForm \<Rightarrow> bool" where
  "hidden f = (\<not> visible f)"

definition ariaHidden :: "('i, 'p) ModelForm \<Rightarrow> string" where
  "ariaHidden f = (if visible f then ''false'' else ''true'')"

text \<open>
  What a form is given from outside.  \<open>load\<close> is \<open>None\<close> when the subclass has no
  \<open>load\<close> method; otherwise it maps the form at the call to how the promise settles
  (\<open>None\<close> resolved, \<open>Some e\<close> rejected with \<open>e\<close>) and to the form at that moment, which
  may differ in the properties assigned while the promise was pending.  \<open>loadInstance\<close>
  gives how its promise settles.  \<open>parseAPIResponseError\<close> and \<open>pluckErrorDetail\<close>
  (of \<open>#common/errors/network\<close>) and \<open>msg\<close> are parameters, and so is \<open>error_truthy\<close>,
  which says of a parsed error whether it is truthy (an object is, the empty string is
  not).
\<close>

record ('e, 'i, 'p) ModelFormEnv =
  load :: "(('i, 'p) ModelForm \<Rightarrow> 'e option \<times> ('i, 'p) ModelForm) option"
  loadInstance :: "pk \<Rightarrow> 'e + 'i"
  parseAPIResponseError :: "'e \<Rightarrow> 'p"
  pluckErrorDetail :: "'p \<Rightarrow> string"
  msg :: "string \<Rightarrow> string"
  error_truthy :: "'p \<Rightarrow> bool"

text \<open>The calls \<open>#refresh\<close> makes, in order.\<close>

datatype 'e call = Load | LoadInstance pk | ParseAPIResponseError 'e

text \<open>
  \<open>loadPromise\<close>, that is \<open>this.load?.() ?? Promise.resolve()\<close>: how it settles, the form
  at that moment and the call made.
\<close>

definition loadPromise ::
  "('e, 'i, 'p) ModelFormEnv \<Rightarrow> ('i, 'p) ModelForm
     \<Rightarrow> 'e option \<times> ('i, 'p) ModelForm \<times> 'e call list" where
  "loadPromise env f1 =
     (case load env of
        None \<Rightarrow> (None, f1, [])
      | Some l \<Rightarrow> (fst (l f1), snd (l f1), [Load]))"

definition refresh ::
  "('e, 'i, 'p) ModelFormEnv \<Rightarrow> ('i, 'p) ModelForm \<Rightarrow> ('i, 'p) ModelForm \<times> 'e call list" where
  "refresh env f =
     (if no_instancePk (instancePk f) then (f, [])
      else
        let f1 = f\<lparr>loading := True\<rparr>;
            (loaded, f2, c1) = loadPromise env f1;
            (settled, c2) =
              (case loaded of
                 Some e \<Rightarrow> (Inl e, [])
               | None \<Rightarrow>
                   if no_instancePk (instancePk f2) then (Inr None, [])
                   else (case loadInstance env (instancePk f2) of
                           Inl e \<Rightarrow> (Inl e, [LoadInstance (instancePk f2)])
                         | Inr i \<Rightarrow> (Inr (Some i), [LoadInstance (instancePk f2)])));
            (f3, c3) =
              (case settled of
                 Inr i \<Rightarrow> (f2\<lparr>inst := i\<rparr>, [])
               | Inl e \<Rightarrow>
                   (f2\<lparr>error := Some (parseAPIResponseError env e)\<rparr>,
                    [ParseAPIResponseError e]))
        in (requestUpdate None None (f3\<lparr>loading := False\<rparr>), c1 @ c2 @ c3))"

text \<open>
  \<open>updated\<close>: \<open>previousVisibility\<close> is \<open>changedProperties.get("visible")\<close>, \<open>None\<close> when
  it is not a boolean.
\<close>

definition updated ::
  "('e, 'i, 'p) ModelFormEnv \<Rightarrow> bool option \<Rightarrow> ('i, 'p) ModelForm
     \<Rightarrow> ('i, 'p) ModelForm \<times> 'e call list" where
  "updated env previousVisibility f =
     (case previousVisibility of
        None \<Rightarrow> (f, [])
      | Some previous \<Rightarrow>
          if visible f \<and> visible f \<noteq> previous then refresh env f else (f, []))"

text \<open>
  What the form renders: \<open>nothing\<close>, the empty state of \<open>renderError\<close> (its icon, the
  text of its \<open>span\<close> and of its \<open>div\<close>), the loading empty state, or what \<open>Form.render\<close>
  gives.
\<close>

datatype template = Nothing | ErrorState string string string | LoadingState | SuperRender

text \<open>The test \<open>this.error\<close> of \<open>renderError\<close> and \<open>render\<close>: the error is set and truthy.\<close>

definition has_error :: "('e, 'i, 'p) ModelFormEnv \<Rightarrow> ('i, 'p) ModelForm \<Rightarrow> bool" where
  "has_error env f = (case error f of None \<Rightarrow> False | Some err \<Rightarrow> error_truthy env err)"

definition renderError :: "('e, 'i, 'p) ModelFormEnv \<Rightarrow> ('i, 'p) ModelForm \<Rightarrow> template" where
  "renderError env f =
     (case error f of
        None \<Rightarrow> Nothing
      | Some err \<Rightarrow>
          if \<not> error_truthy env err then Nothing
          else ErrorState ''fa-ban'' (msg env ''Failed to fetch model.'')
                 (pluckErrorDetail env err))"

definition render :: "('e, 'i, 'p) ModelFormEnv \<Rightarrow> ('i, 'p) ModelForm \<Rightarrow> template" where
  "render env f =
     (if \<not> visible f then Nothing
      else if has_error env f then renderError env f
      else if loading f then LoadingState
      else SuperRender)"

section \<open>AKTimestamp\<close>

text \<open>
  A \<open>Date\<close> object is given by its time value, \<open>None\<close> for the \<open>NaN\<close> of an invalid
  date.  \<open>TimeClip\<close> is the abstract operation of the language that \<open>new Date(number)\<close>
  applies.
\<close>

datatype Date = Date (getTime: "int option")

definition TimeClip :: "number \<Rightarrow> int option" where
  "TimeClip n =
     (case n of
        Finite q \<Rightarrow>
          if \<bar>q\<bar> > 8640000000000000 then None
          else Some (if q \<ge> 0 then \<lfloor>q\<rfloor> else \<lceil>q\<rceil>)
      | _ \<Rightarrow> None)"

text \<open>What the setter of \<open>timestamp\<close> accepts: \<open>string | Date | number | null\<close>.\<close>

datatype timestamp_input = InNull | InString string | InNumber number | InDate Date

definition truthy :: "timestamp_input \<Rightarrow> bool" where
  "truthy v =
     (case v of InNull \<Rightarrow> False | InString s \<Rightarrow> s \<noteq> []
      | InNumber n \<Rightarrow> number_truthy n | InDate d \<Rightarrow> True)"

text \<open>
  \<open>new Date(value)\<close> for a value that is not a \<open>Date\<close>; \<open>parse\<close> is \<open>Date.parse\<close>, a
  parameter.
\<close>

definition new_Date :: "(string \<Rightarrow> int option) \<Rightarrow> timestamp_input \<Rightarrow> Date" where
  "new_Date parse v =
     (case v of
        InNull \<Rightarrow> Date (Some 0)
      | InString s \<Rightarrow> Date (parse s)
      | InNumber n \<Rightarrow> Date (TimeClip n)
      | InDate d \<Rightarrow> d)"

text \<open>
  \<open>AKTimestamp\<close>, whose \<open>visible\<close> is decorated with \<open>intersectionObserver()\<close>;
  \<open>interval\<close> and \<open>animationFrameID\<close> are the private fields \<open>#interval\<close> and
  \<open>#animationFrameID\<close>, and \<open>refresh_prop\<close> is the property \<open>refresh\<close>.
\<close>

record AKTimestamp = LitElement +
  timestamp :: "Date option"
  elapsed :: bool
  datetime :: bool
  refresh_prop :: bool
  interval :: int
  animationFrameID :: int

definition set_timestamp ::
  "(string \<Rightarrow> int option) \<Rightarrow> timestamp_input \<Rightarrow> AKTimestamp \<Rightarrow> AKTimestamp" where
  "set_timestamp parse v el =
     el\<lparr>timestamp :=
          (if truthy v
           then (case v of InDate d \<Rightarrow> Some d | _ \<Rightarrow> Some (new_Date parse v))
           else None)\<rparr>"

text \<open>
  The callbacks handed to \<open>setInterval\<close>: the one of the first branch closes over
  \<open>moment\<close>, the other over nothing.
\<close>

datatype tick = SecondTick "int option" | MinuteTick

datatype visibility = Visible | Hidden

text \<open>
  The element in its window: \<open>timers\<close> are the active intervals (callback and delay in
  milliseconds) by handle, \<open>frames\<close> the pending animation frame requests, each of
  which will call \<open>startInterval\<close>; \<open>next_timer\<close> and \<open>next_frame\<close> are the handles the
  window gives out next; \<open>clock\<close> is what \<open>Date.now()\<close> returns.
\<close>

record window =
  element :: AKTimestamp
  timers :: "int \<rightharpoonup> tick \<times> int"
  frames :: "int set"
  next_timer :: int
  next_frame :: int
  visibilityState :: visibility
  clock :: int

definition clearInterval :: "int \<Rightarrow> window \<Rightarrow> window" where
  "clearInterval handle w = w\<lparr>timers := (timers w)(handle := None)\<rparr>"

definition setInterval :: "tick \<Rightarrow> int \<Rightarrow> window \<Rightarrow> int \<times> window" where
  "setInterval cb delay w =
     (next_timer w,
      w\<lparr>timers := (timers w)(next_timer w \<mapsto> (cb, delay)),
        next_timer := next_timer w + 1\<rparr>)"

text \<open>The assignment \<open>this.#interval = self.setInterval(cb, delay)\<close>.\<close>

definition install :: "tick \<Rightarrow> int \<Rightarrow> window \<Rightarrow> window" where
  "install cb delay w =
     (let (handle, w1) = setInterval cb delay w
      in w1\<lparr>element := (element w1)\<lparr>interval := handle\<rparr>\<rparr>)"

definition stopInterval :: "window \<Rightarrow> window" where
  "stopInterval w = clearInterval (interval (element w)) w"

text \<open>
  The comparisons of \<open>startInterval\<close> on time values: every comparison with \<open>NaN\<close> is
  false.
\<close>

definition within_minute :: "int \<Rightarrow> int option \<Rightarrow> bool" where
  "within_minute t moment =
     (case moment of None \<Rightarrow> False | Some m \<Rightarrow> t \<ge> m - 60000 \<and> t \<le> m + 60000)"

definition outside_minute :: "int \<Rightarrow> int option \<Rightarrow> bool" where
  "outside_minute t moment =
     (case moment of None \<Rightarrow> False | Some m \<Rightarrow> t < m - 60000 \<or> t > m + 60000)"

definition startInterval :: "window \<Rightarrow> window" where
  "startInterval w =
     (let w1 = stopInterval w
      in case timestamp (element w1) of
           None \<Rightarrow> w1
         | Some ts \<Rightarrow>
             if \<not> refresh_prop (element w1) \<or> visibilityState w1 \<noteq> Visible
                \<or> \<not> visible (element w1)
             then w1
             else
               let moment = getTime ts;
                   start = clock w1
               in if within_minute start moment
                  then install (SecondTick moment) 1000 w1
                  else install MinuteTick (1000 * 60) w1)"

text \<open>The condition under which \<open>startInterval\<close> returns before installing an interval.\<close>

definition no_interval :: "window \<Rightarrow> bool" where
  "no_interval w =
     (timestamp (element w) = None \<or> \<not> refresh_prop (element w)
      \<or> visibilityState w \<noteq> Visible \<or> \<not> visible (element w))"

text \<open>The current time is within 60000 ms of the timestamp's time, both ends included.\<close>

definition near :: "window \<Rightarrow> bool" where
  "near w =
     (case timestamp (element w) of
        None \<Rightarrow> False
      | Some ts \<Rightarrow>
          (case getTime ts of None \<Rightarrow> False | Some t \<Rightarrow> \<bar>clock w - t\<bar> \<le> 60000))"

text \<open>An interval fires.\<close>

definition run_tick :: "tick \<Rightarrow> window \<Rightarrow> window" where
  "run_tick cb w =
     (if \<not> visible (element w) \<or> visibilityState w \<noteq> Visible then w
      else
        let w1 = w\<lparr>element := requestUpdate None None (element w)\<rparr>
        in case cb of
             MinuteTick \<Rightarrow> w1
           | SecondTick moment \<Rightarrow>
               if outside_minute (clock w1) moment then startInterval w1 else w1)"

text \<open>
  \<open>updated\<close>, with \<open>changed\<close> saying whether one of \<open>visible\<close>, \<open>timestamp\<close> and
  \<open>refresh\<close> is among the changed properties; a pending frame that runs; and
  \<open>disconnectedCallback\<close>.
\<close>

definition timestamp_updated :: "bool \<Rightarrow> window \<Rightarrow> window" where
  "timestamp_updated changed w =
     (if changed
      then w\<lparr>frames := insert (next_frame w) (frames w - {animationFrameID (element w)}),
             element := (element w)\<lparr>animationFrameID := next_frame w\<rparr>,
             next_frame := next_frame w + 1\<rparr>
      else w)"

definition run_frame :: "int \<Rightarrow> window \<Rightarrow> window" where
  "run_frame handle w =
     (if handle \<in> frames w then startInterval (w\<lparr>frames := frames w - {handle}\<rparr>) else w)"

definition timestamp_disconnected :: "window \<Rightarrow> window" where
  "timestamp_disconnected w =
     (let w1 = w\<lparr>element := disconnectedCallback (element w)\<rparr>;
          w2 = stopInterval w1
      in w2\<lparr>frames := frames w2 - {animationFrameID (element w2)}\<rparr>)"

text \<open>
  What \<open>render\<close> gives: the placeholder \<open>span\<close> (its role, its \<open>aria-label\<close> and its
  text) or the \<open>time\<close> element (its \<open>datetime\<close> and \<open>aria-describedby\<close> attributes, and
  the texts of the parts \<open>elapsed\<close> and \<open>datetime\<close> where they are rendered).
  \<open>toISOString\<close> throws a \<open>RangeError\<close> on an invalid date.  \<open>formatElapsedTime\<close> (of
  \<open>#common/temporal\<close>), \<open>ifPresent\<close> (of \<open>#elements/utils/attributes\<close>) and the
  formatting methods of \<open>Date\<close> are parameters.
\<close>

datatype timestamp_template =
    Span string string string
  | Time string "string option" "string option" "string option"

datatype render_error = RangeError

record TimestampEnv =
  formatElapsedTime :: "Date \<Rightarrow> string"
  ifPresent :: "bool \<Rightarrow> string \<Rightarrow> string option"
  toISOString :: "int \<Rightarrow> string"
  toLocaleString :: "Date \<Rightarrow> string"

definition timestamp_render ::
  "TimestampEnv \<Rightarrow> AKTimestamp \<Rightarrow> render_error + timestamp_template" where
  "timestamp_render env el =
     (case timestamp el of
        None \<Rightarrow> Inr (Span ''time'' ''None'' ''-'')
      | Some ts \<Rightarrow>
          if getTime ts = Some 0 then Inr (Span ''time'' ''None'' ''-'')
          else
            let elapsed_text = formatElapsedTime env ts
            in (case getTime ts of
                  None \<Rightarrow> Inl RangeError
                | Some t \<Rightarrow>
                    Inr (Time (toISOString env t)
                           (ifPresent env (elapsed el) ''elapsed'')
                           (if elapsed el then Some elapsed_text else None)
                           (if datetime el then Some (toLocaleString env ts) else None))))"

section \<open>themeImage\<close>








definition isDefaultAvatar :: "string option \<Rightarrow> bool" where
  "isDefaultAvatar path =
     (case path of None \<Rightarrow> False | Some p \<Rightarrow> suffix ''user_default.png'' p)"


section \<open>Example inputs\<close>

definition example_invalid_slot :: "string slotted list option" where
  "example_invalid_slot =
     Some [\<lparr>instanceofForm = False, validity = True, submission = None\<rparr>,
           \<lparr>instanceofForm = True, validity = False, submission = None\<rparr>]"

definition example_rejecting_slot :: "string slotted list option" where
  "example_rejecting_slot =
     Some [\<lparr>instanceofForm = True, validity = True, submission = Some ''HTTP 400''\<rparr>]"

definition example_resolving_slot :: "string slotted list option" where
  "example_resolving_slot =
     Some [\<lparr>instanceofForm = True, validity = True, submission = None\<rparr>]"

definition example_modal :: ModalForm where
  "example_modal = \<lparr>dialog = Some True, locked = True, events = [Submit],
      closeAfterSuccessfulSubmit = True, showSubmitButton = True, loading = True,
      cancelText = ''Cancel''\<rparr>"

definition example_idle_modal :: ModalForm where
  "example_idle_modal = \<lparr>dialog = Some True, locked = False, events = [],
      closeAfterSuccessfulSubmit = True, showSubmitButton = True, loading = False,
      cancelText = ''Cancel''\<rparr>"


definition example_model :: "(string, string) ModelForm" where
  "example_model = \<lparr>privateKey = Some True, hasUpdated = True, observerMap_has = True,
      observing = True, deferred = False, effects = [],
      instancePk = PkNumber (Finite 0), inst = None, error = None, loading = False\<rparr>"

definition example_failing_env :: "(string, string, string) ModelFormEnv" where
  "example_failing_env = \<lparr>load = None, loadInstance = (\<lambda>p. Inl ''HTTP 404''),
      parseAPIResponseError = (\<lambda>e. ''parsed '' @ e), pluckErrorDetail = (\<lambda>p. p), msg = id,
      error_truthy = (\<lambda>p. p \<noteq> [])\<rparr>"

definition example_clearing_env :: "(string, string, string) ModelFormEnv" where
  "example_clearing_env = \<lparr>load = Some (\<lambda>f. (None, f\<lparr>instancePk := PkNull\<rparr>)),
      loadInstance = (\<lambda>p. Inr ''instance''),
      parseAPIResponseError = (\<lambda>e. ''parsed '' @ e), pluckErrorDetail = (\<lambda>p. p), msg = id,
      error_truthy = (\<lambda>p. p \<noteq> [])\<rparr>"

text \<open>
  A \<open>load()\<close> that rejects when it is called on a form that is loading, and resolves
  otherwise.
\<close>

definition example_rejecting_load_env :: "(string, string, string) ModelFormEnv" where
  "example_rejecting_load_env =
     \<lparr>load = Some (\<lambda>f. (if loading f then Some ''HTTP 500'' else None, f)),
      loadInstance = (\<lambda>p. Inr ''instance''),
      parseAPIResponseError = (\<lambda>e. ''parsed '' @ e), pluckErrorDetail = (\<lambda>p. p), msg = id,
      error_truthy = (\<lambda>p. p \<noteq> [])\<rparr>"

text \<open>A \<open>load()\<close> that resolves, followed by a \<open>loadInstance\<close> that rejects.\<close>

definition example_rejecting_instance_env :: "(string, string, string) ModelFormEnv" where
  "example_rejecting_instance_env =
     \<lparr>load = Some (\<lambda>f. (None, f)), loadInstance = (\<lambda>p. Inl ''HTTP 403''),
      parseAPIResponseError = (\<lambda>e. ''parsed '' @ e), pluckErrorDetail = (\<lambda>p. p), msg = id,
      error_truthy = (\<lambda>p. p \<noteq> [])\<rparr>"

text \<open>A refresh that succeeds.\<close>

definition example_loading_env :: "(string, string, string) ModelFormEnv" where
  "example_loading_env =
     \<lparr>load = Some (\<lambda>f. (None, f)), loadInstance = (\<lambda>p. Inr ''instance''),
      parseAPIResponseError = (\<lambda>e. ''parsed '' @ e), pluckErrorDetail = (\<lambda>p. p), msg = id,
      error_truthy = (\<lambda>p. p \<noteq> [])\<rparr>"

text \<open>A parser that gives the empty string, which is falsy, for every rejection.\<close>

definition example_falsy_env :: "(string, string, string) ModelFormEnv" where
  "example_falsy_env = \<lparr>load = None, loadInstance = (\<lambda>p. Inl ''HTTP 404''),
      parseAPIResponseError = (\<lambda>e. []), pluckErrorDetail = (\<lambda>p. p), msg = id,
      error_truthy = (\<lambda>p. p \<noteq> [])\<rparr>"

definition example_timestamp :: AKTimestamp where
  "example_timestamp = \<lparr>privateKey = Some True, hasUpdated = True, observerMap_has = True,
     observing = True, deferred = False, effects = [],
     timestamp = Some (Date (Some 1000)), elapsed = True, datetime = False,
     refresh_prop = True, interval = 7, animationFrameID = -1\<rparr>"

definition example_window :: window where
  "example_window = \<lparr>element = example_timestamp,
     timers = [7 \<mapsto> (MinuteTick, 60000)], frames = {}, next_timer = 8, next_frame = 1,
     visibilityState = Visible, clock = 61000\<rparr>"

definition example_timestamp_env :: TimestampEnv where
  "example_timestamp_env = \<lparr>formatElapsedTime = (\<lambda>d. ''a moment ago''),
     ifPresent = (\<lambda>b s. if b then Some s else None),
     toISOString = (\<lambda>t. ''1970-01-01T00:00:01.000Z''),
     toLocaleString = (\<lambda>d. ''1/1/1970, 12:00:01 AM'')\<rparr>"





section \<open>Properties of ModalForm\<close>

lemma events_record_event: "events (record_event ev m) = events m @ [ev]"
  by (simp add: record_event_def)

lemma confirm_no_form:
  "List.find instanceofForm (defaultSlotElements slot) = None \<Longrightarrow>
   confirm name tr slot m = (Inl (Error (tr ''No form found within the default slot'')), m)"
  by (simp add: confirm_def)

lemma confirm_invalid:
  "List.find instanceofForm (defaultSlotElements slot) = Some form \<Longrightarrow> \<not> validity form \<Longrightarrow>
   confirm name tr slot m =
     (Inr (), m\<lparr>events := events m @ [ReportValidity, SetLoading False, SetLocked False],
                locked := False, ModalForm.loading := False\<rparr>)"
  by (simp add: confirm_def begin_submission_def settle_submission_def Let_def
      set_loading_def set_locked_def record_event_def)

lemma confirm_rejected:
  "List.find instanceofForm (defaultSlotElements slot) = Some form \<Longrightarrow> validity form \<Longrightarrow>
   submission form = Some e \<Longrightarrow>
   confirm name tr slot m =
     (Inl (Rethrown e),
      m\<lparr>events := events m @ [ReportValidity, SetLoading True, SetLocked True, Submit,
                                  SetLoading False, SetLocked False],
        locked := False, ModalForm.loading := False\<rparr>)"
  by (simp add: confirm_def begin_submission_def settle_submission_def Let_def
      set_loading_def set_locked_def record_event_def)

lemma confirm_resolved_keep:
  "List.find instanceofForm (defaultSlotElements slot) = Some form \<Longrightarrow> validity form \<Longrightarrow>
   submission form = None \<Longrightarrow> \<not> closeAfterSuccessfulSubmit m \<Longrightarrow>
   confirm name tr slot m =
     (Inr (),
      m\<lparr>events := events m @ [ReportValidity, SetLoading True, SetLocked True, Submit,
                                  SetLoading False, SetLocked False],
        locked := False, ModalForm.loading := False\<rparr>)"
  by (simp add: confirm_def begin_submission_def settle_submission_def Let_def
      set_loading_def set_locked_def record_event_def)

lemma confirm_resolved_close:
  "List.find instanceofForm (defaultSlotElements slot) = Some form \<Longrightarrow> validity form \<Longrightarrow>
   submission form = None \<Longrightarrow> closeAfterSuccessfulSubmit m \<Longrightarrow>
   confirm name tr slot m =
     (Inr (),
      m\<lparr>events := events m @ [ReportValidity, SetLoading True, SetLocked True, Submit,
                                  SetOpen False, FormReset, DispatchEvent name True True,
                                  SetLoading False, SetLocked False],
        dialog := map_option (\<lambda>_. False) (dialog m),
        locked := False, ModalForm.loading := False\<rparr>)"
  by (cases "dialog m")
    (simp_all add: confirm_def begin_submission_def settle_submission_def Let_def
      set_loading_def set_locked_def set_open_def record_event_def)

lemma confirm_events_no_form:
  "List.find instanceofForm (defaultSlotElements slot) = None \<Longrightarrow>
   confirm_events name tr slot m = []"
  by (simp add: confirm_events_def confirm_no_form)

lemma confirm_events_invalid:
  "List.find instanceofForm (defaultSlotElements slot) = Some form \<Longrightarrow> \<not> validity form \<Longrightarrow>
   confirm_events name tr slot m = [ReportValidity, SetLoading False, SetLocked False]"
  by (simp add: confirm_events_def confirm_invalid)

lemma confirm_events_rejected:
  "List.find instanceofForm (defaultSlotElements slot) = Some form \<Longrightarrow> validity form \<Longrightarrow>
   submission form = Some e \<Longrightarrow>
   confirm_events name tr slot m =
     [ReportValidity, SetLoading True, SetLocked True, Submit, SetLoading False, SetLocked False]"
  by (simp add: confirm_events_def confirm_rejected)

lemma confirm_events_resolved_keep:
  "List.find instanceofForm (defaultSlotElements slot) = Some form \<Longrightarrow> validity form \<Longrightarrow>
   submission form = None \<Longrightarrow> \<not> closeAfterSuccessfulSubmit m \<Longrightarrow>
   confirm_events name tr slot m =
     [ReportValidity, SetLoading True, SetLocked True, Submit, SetLoading False, SetLocked False]"
  by (simp add: confirm_events_def confirm_resolved_keep)

lemma confirm_events_resolved_close:
  "List.find instanceofForm (defaultSlotElements slot) = Some form \<Longrightarrow> validity form \<Longrightarrow>
   submission form = None \<Longrightarrow> closeAfterSuccessfulSubmit m \<Longrightarrow>
   confirm_events name tr slot m =
     [ReportValidity, SetLoading True, SetLocked True, Submit, SetOpen False, FormReset,
      DispatchEvent name True True, SetLoading False, SetLocked False]"
  by (simp add: confirm_events_def confirm_resolved_close)

text \<open>
  Claim C1.  When the slotted form's \<open>reportValidity()\<close> returns false, a run of
  \<open>#confirm\<close> only reports validity and clears the two flags: \<open>submit\<close> is not called,
  the promise resolves, and \<open>loading\<close> and \<open>locked\<close> are false when it returns.
\<close>

theorem confirm_validates_first:
  assumes "List.find instanceofForm (defaultSlotElements slot) = Some form"
    and "\<not> validity form"
  shows "confirm_events name tr slot m = [ReportValidity, SetLoading False, SetLocked False]
       \<and> Submit \<notin> set (confirm_events name tr slot m)
       \<and> fst (confirm name tr slot m) = Inr ()
       \<and> \<not> ModalForm.loading (snd (confirm name tr slot m))
       \<and> \<not> locked (snd (confirm name tr slot m))"
  using confirm_invalid [OF assms, of name tr m] by (simp add: confirm_events_def)

theorem confirm_validates_first_witness:
  "confirm_events ''ak-refresh'' id example_invalid_slot example_modal
      = [ReportValidity, SetLoading False, SetLocked False]
   \<and> Submit \<notin> set (confirm_events ''ak-refresh'' id example_invalid_slot example_modal)
   \<and> fst (confirm ''ak-refresh'' id example_invalid_slot example_modal) = Inr ()
   \<and> \<not> ModalForm.loading (snd (confirm ''ak-refresh'' id example_invalid_slot example_modal))
   \<and> \<not> locked (snd (confirm ''ak-refresh'' id example_invalid_slot example_modal))"
  using confirm_validates_first [of example_invalid_slot
      "\<lparr>instanceofForm = True, validity = False, submission = None\<rparr>"
      "''ak-refresh''" id example_modal]
  by (simp add: example_invalid_slot_def defaultSlotElements_def)

text \<open>
  Claim C2.  When validation passes, the run of \<open>#confirm\<close> goes through
  \<open>begin_submission\<close>: at the moment \<open>submit\<close> is called, \<open>loading\<close> and \<open>locked\<close> are
  both true, whatever they were before.  Once the submission has settled, resolved or
  rejected, both are false, and on rejection the promise of \<open>#confirm\<close> rejects with
  the same error, after the flags were cleared.
\<close>

theorem confirm_flags_around_submission:
  assumes "List.find instanceofForm (defaultSlotElements slot) = Some form"
    and "validity form"
  shows "confirm name tr slot m =
           settle_submission name (submission form)
             (begin_submission (record_event ReportValidity m))
       \<and> ModalForm.loading (begin_submission (record_event ReportValidity m))
       \<and> locked (begin_submission (record_event ReportValidity m))
       \<and> events (begin_submission (record_event ReportValidity m)) =
           events m @ [ReportValidity, SetLoading True, SetLocked True, Submit]
       \<and> (\<exists>middle. confirm_events name tr slot m =
            [ReportValidity, SetLoading True, SetLocked True, Submit] @ middle
              @ [SetLoading False, SetLocked False])
       \<and> \<not> ModalForm.loading (snd (confirm name tr slot m))
       \<and> \<not> locked (snd (confirm name tr slot m))
       \<and> fst (confirm name tr slot m) =
           (case submission form of None \<Rightarrow> Inr () | Some e \<Rightarrow> Inl (Rethrown e))"
proof -
  have staged: "confirm name tr slot m =
      settle_submission name (submission form)
        (begin_submission (record_event ReportValidity m))"
    using assms by (simp add: confirm_def Let_def)
  have at_submit:
    "ModalForm.loading (begin_submission (record_event ReportValidity m))
     \<and> locked (begin_submission (record_event ReportValidity m))
     \<and> events (begin_submission (record_event ReportValidity m)) =
         events m @ [ReportValidity, SetLoading True, SetLocked True, Submit]"
    by (simp add: begin_submission_def set_loading_def set_locked_def record_event_def Let_def)
  have after: "(\<exists>middle. confirm_events name tr slot m =
            [ReportValidity, SetLoading True, SetLocked True, Submit] @ middle
              @ [SetLoading False, SetLocked False])
       \<and> \<not> ModalForm.loading (snd (confirm name tr slot m))
       \<and> \<not> locked (snd (confirm name tr slot m))
       \<and> fst (confirm name tr slot m) =
           (case submission form of None \<Rightarrow> Inr () | Some e \<Rightarrow> Inl (Rethrown e))"
  proof (cases "submission form")
    case (Some e)
    show ?thesis
      using confirm_rejected [OF assms Some, of name tr m]
        confirm_events_rejected [OF assms Some, of name tr m] Some
      by simp
  next
    case None
    show ?thesis
    proof (cases "closeAfterSuccessfulSubmit m")
      case True
      show ?thesis
        using confirm_resolved_close [OF assms None True, of name tr]
          confirm_events_resolved_close [OF assms None True, of name tr] None
        by simp
    next
      case False
      show ?thesis
        using confirm_resolved_keep [OF assms None False, of name tr]
          confirm_events_resolved_keep [OF assms None False, of name tr] None
        by simp
    qed
  qed
  from staged at_submit after show ?thesis by blast
qed

theorem confirm_flags_around_submission_witness:
  "\<not> ModalForm.loading example_idle_modal \<and> \<not> locked example_idle_modal
   \<and> ModalForm.loading (begin_submission (record_event ReportValidity example_idle_modal))
   \<and> locked (begin_submission (record_event ReportValidity example_idle_modal))
   \<and> confirm ''ak-refresh'' id example_rejecting_slot example_idle_modal =
       settle_submission ''ak-refresh'' (Some ''HTTP 400'')
         (begin_submission (record_event ReportValidity example_idle_modal))
   \<and> confirm_events ''ak-refresh'' id example_rejecting_slot example_idle_modal =
       [ReportValidity, SetLoading True, SetLocked True, Submit,
        SetLoading False, SetLocked False]
   \<and> \<not> ModalForm.loading (snd (confirm ''ak-refresh'' id example_rejecting_slot example_idle_modal))
   \<and> \<not> locked (snd (confirm ''ak-refresh'' id example_rejecting_slot example_idle_modal))
   \<and> fst (confirm ''ak-refresh'' id example_rejecting_slot example_idle_modal)
        = Inl (Rethrown ''HTTP 400'')
   \<and> \<not> ModalForm.loading (snd (confirm ''ak-refresh'' id example_resolving_slot example_idle_modal))
   \<and> \<not> locked (snd (confirm ''ak-refresh'' id example_resolving_slot example_idle_modal))
   \<and> fst (confirm ''ak-refresh'' id example_resolving_slot example_idle_modal) = Inr ()"
  using confirm_flags_around_submission [of example_rejecting_slot
      "\<lparr>instanceofForm = True, validity = True, submission = Some ''HTTP 400''\<rparr>"
      "''ak-refresh''" id example_idle_modal]
    confirm_flags_around_submission [of example_resolving_slot
      "\<lparr>instanceofForm = True, validity = True, submission = None\<rparr>"
      "''ak-refresh''" id example_idle_modal]
  by (simp add: example_rejecting_slot_def example_resolving_slot_def defaultSlotElements_def
      example_idle_modal_def confirm_events_def settle_submission_def set_loading_def
      set_locked_def record_event_def)

text \<open>
  Claim C3.  A run of \<open>#confirm\<close> dispatches an event exactly when a valid form's
  submission resolved and \<open>closeAfterSuccessfulSubmit\<close> is true; the event is then
  \<open>EVENT_REFRESH\<close>, bubbling and composed, dispatched after \<open>open\<close> was set to false and
  the form reset, and the modal is closed afterwards.
\<close>

theorem confirm_refresh_event:
  "(DispatchEvent n b c \<in> set (confirm_events name tr slot m)) =
     (n = name \<and> b \<and> c \<and> closeAfterSuccessfulSubmit m \<and>
      (\<exists>form. List.find instanceofForm (defaultSlotElements slot) = Some form
          \<and> validity form \<and> submission form = None))
   \<and> ((\<exists>form. List.find instanceofForm (defaultSlotElements slot) = Some form
          \<and> validity form \<and> submission form = None) \<and> closeAfterSuccessfulSubmit m
       \<longrightarrow> confirm_events name tr slot m =
             [ReportValidity, SetLoading True, SetLocked True, Submit, SetOpen False, FormReset,
              DispatchEvent name True True, SetLoading False, SetLocked False]
           \<and> \<not> get_open (snd (confirm name tr slot m)))"
proof (cases "List.find instanceofForm (defaultSlotElements slot)")
  case None
  then show ?thesis by (simp add: confirm_events_no_form)
next
  case (Some form)
  show ?thesis
  proof (cases "validity form")
    case False
    then show ?thesis using Some by (simp add: confirm_events_invalid [OF Some])
  next
    case valid: True
    show ?thesis
    proof (cases "submission form")
      case (Some e)
      then show ?thesis
        using \<open>List.find instanceofForm (defaultSlotElements slot) = Some form\<close> valid
        by (simp add: confirm_events_rejected [where e = e])
    next
      case None
      note found = \<open>List.find instanceofForm (defaultSlotElements slot) = Some form\<close>
      show ?thesis
      proof (cases "closeAfterSuccessfulSubmit m")
        case True
        show ?thesis
          using confirm_resolved_close [OF found valid None True, of name tr]
            confirm_events_resolved_close [OF found valid None True, of name tr]
            found valid None True
          by (auto simp: get_open_def split: option.splits)
      next
        case False
        show ?thesis
          using confirm_events_resolved_keep [OF found valid None False, of name tr]
            found valid None False
          by simp
      qed
    qed
  qed
qed

theorem confirm_refresh_event_witness:
  "DispatchEvent ''ak-refresh'' True True
      \<in> set (confirm_events ''ak-refresh'' id example_resolving_slot example_modal)
   \<and> confirm_events ''ak-refresh'' id example_resolving_slot example_modal =
       [ReportValidity, SetLoading True, SetLocked True, Submit, SetOpen False, FormReset,
        DispatchEvent ''ak-refresh'' True True, SetLoading False, SetLocked False]
   \<and> \<not> get_open (snd (confirm ''ak-refresh'' id example_resolving_slot example_modal))
   \<and> DispatchEvent ''ak-refresh'' True True
      \<notin> set (confirm_events ''ak-refresh'' id example_rejecting_slot example_modal)
   \<and> DispatchEvent ''ak-refresh'' True True
      \<notin> set (confirm_events ''ak-refresh'' id example_invalid_slot example_modal)"
  using confirm_refresh_event [of "''ak-refresh''" True True "''ak-refresh''" id
          example_resolving_slot example_modal]
    confirm_refresh_event [of "''ak-refresh''" True True "''ak-refresh''" id
          example_rejecting_slot example_modal]
    confirm_refresh_event [of "''ak-refresh''" True True "''ak-refresh''" id
          example_invalid_slot example_modal]
  by (simp add: example_resolving_slot_def example_rejecting_slot_def example_invalid_slot_def
      example_modal_def defaultSlotElements_def)

section \<open>Properties of the decorator and of ModelForm\<close>

lemma no_instancePk_iff:
  "no_instancePk p = (p = PkNull \<or> p = PkUndefined \<or> p = PkString [])"
  by (cases p) (simp_all add: no_instancePk_def pk_truthy_def typeof_number_def)



text \<open>
  Claim C8.  In every state of a \<open>ModelForm\<close>, also the one a refresh leaves, \<open>hidden\<close>
  is the negation of \<open>visible\<close>, and \<open>ariaHidden\<close> is \<open>"true"\<close> exactly when the form is
  hidden and \<open>"false"\<close> exactly when it is visible.
\<close>

theorem hidden_is_not_visible:
  "hidden f = (\<not> visible f)
   \<and> (ariaHidden f = ''true'') = hidden f
   \<and> (ariaHidden f = ''false'') = visible f
   \<and> hidden (fst (refresh env f)) = (\<not> visible (fst (refresh env f)))
   \<and> (ariaHidden (fst (refresh env f)) = ''true'') = hidden (fst (refresh env f))
   \<and> (ariaHidden (fst (refresh env f)) = ''false'') = visible (fst (refresh env f))"
  by (simp add: hidden_def ariaHidden_def)

text \<open>
  Claim C9.  The guard of \<open>#refresh\<close> holds exactly for \<open>null\<close>, \<open>undefined\<close> and the
  empty string; under it the refresh changes nothing and calls nothing.  A numeric key,
  0 included, starts the load sequence.  When the key is cleared while \<open>load()\<close> is
  pending, the instance becomes \<open>null\<close> and \<open>loadInstance\<close> is not called.
\<close>

theorem refresh_guard:
  "no_instancePk p = (p = PkNull \<or> p = PkUndefined \<or> p = PkString [])
   \<and> (no_instancePk (instancePk f) \<longrightarrow> refresh env f = (f, []))
   \<and> \<not> no_instancePk (PkNumber (Finite 0))
   \<and> (instancePk f = PkNumber n \<longrightarrow>
        snd (refresh env f) \<noteq> []
        \<and> hd (snd (refresh env f)) =
            (if load env = None then LoadInstance (PkNumber n) else Load))
   \<and> (\<not> no_instancePk (instancePk f)
        \<and> fst (loadPromise env (f\<lparr>loading := True\<rparr>)) = None
        \<and> no_instancePk (instancePk (fst (snd (loadPromise env (f\<lparr>loading := True\<rparr>)))))
       \<longrightarrow> inst (fst (refresh env f)) = None
           \<and> snd (refresh env f) = snd (snd (loadPromise env (f\<lparr>loading := True\<rparr>)))
           \<and> (\<forall>q. LoadInstance q \<notin> set (snd (refresh env f))))"
  apply (intro conjI)
      apply (rule no_instancePk_iff)
     apply (simp add: refresh_def)
    apply (simp add: no_instancePk_iff)
   apply (auto simp: refresh_def Let_def loadPromise_def no_instancePk_iff
      requestUpdate_def perform_def
      split: option.splits sum.splits prod.splits)
  done

text \<open>
  Claim C6.  A refresh that passes its guard leaves \<open>loading\<close> false, however it
  settles.  When \<open>load()\<close> rejects, or \<open>load()\<close> resolves or is absent and
  \<open>loadInstance(pk)\<close> rejects, the rejection is parsed by \<open>parseAPIResponseError\<close> and
  the parsed error stored in \<open>error\<close>; \<open>renderError\<close> then shows the message
  "Failed to fetch model." with the plucked detail when the parsed error is truthy, and
  nothing when it is falsy.
\<close>

theorem refresh_failure_is_rendered:
  assumes "\<not> no_instancePk (instancePk f)"
  shows "\<not> loading (fst (refresh env f))
   \<and> (\<forall>l. load env = Some l \<and> fst (l (f\<lparr>loading := True\<rparr>)) = Some e \<longrightarrow>
         snd (refresh env f) = [Load, ParseAPIResponseError e]
         \<and> error (fst (refresh env f)) = Some (parseAPIResponseError env e)
         \<and> renderError env (fst (refresh env f)) =
             (if error_truthy env (parseAPIResponseError env e)
              then ErrorState ''fa-ban'' (msg env ''Failed to fetch model.'')
                     (pluckErrorDetail env (parseAPIResponseError env e))
              else Nothing))
   \<and> (\<forall>l. load env = Some l \<and> fst (l (f\<lparr>loading := True\<rparr>)) = None
           \<and> \<not> no_instancePk (instancePk (snd (l (f\<lparr>loading := True\<rparr>))))
           \<and> loadInstance env (instancePk (snd (l (f\<lparr>loading := True\<rparr>)))) = Inl e \<longrightarrow>
         snd (refresh env f) =
           [Load, LoadInstance (instancePk (snd (l (f\<lparr>loading := True\<rparr>)))),
            ParseAPIResponseError e]
         \<and> error (fst (refresh env f)) = Some (parseAPIResponseError env e)
         \<and> renderError env (fst (refresh env f)) =
             (if error_truthy env (parseAPIResponseError env e)
              then ErrorState ''fa-ban'' (msg env ''Failed to fetch model.'')
                     (pluckErrorDetail env (parseAPIResponseError env e))
              else Nothing))
   \<and> (load env = None \<and> loadInstance env (instancePk f) = Inl e \<longrightarrow>
         snd (refresh env f) = [LoadInstance (instancePk f), ParseAPIResponseError e]
         \<and> error (fst (refresh env f)) = Some (parseAPIResponseError env e)
         \<and> renderError env (fst (refresh env f)) =
             (if error_truthy env (parseAPIResponseError env e)
              then ErrorState ''fa-ban'' (msg env ''Failed to fetch model.'')
                     (pluckErrorDetail env (parseAPIResponseError env e))
              else Nothing))"
proof (intro conjI allI impI)
  show "\<not> loading (fst (refresh env f))"
    using assms
    by (auto simp: refresh_def Let_def requestUpdate_def perform_def
        split: option.splits sum.splits prod.splits)
next
  fix l
  assume h: "load env = Some l \<and> fst (l (f\<lparr>loading := True\<rparr>)) = Some e"
  then have "refresh env f =
      (requestUpdate None None
         ((snd (l (f\<lparr>loading := True\<rparr>)))
            \<lparr>error := Some (parseAPIResponseError env e), loading := False\<rparr>),
       [Load, ParseAPIResponseError e])"
    using assms by (simp add: refresh_def loadPromise_def Let_def)
  then show "snd (refresh env f) = [Load, ParseAPIResponseError e]"
    and "error (fst (refresh env f)) = Some (parseAPIResponseError env e)"
    and "renderError env (fst (refresh env f)) =
             (if error_truthy env (parseAPIResponseError env e)
              then ErrorState ''fa-ban'' (msg env ''Failed to fetch model.'')
                     (pluckErrorDetail env (parseAPIResponseError env e))
              else Nothing)"
    by (simp_all add: renderError_def requestUpdate_def perform_def)
next
  fix l
  assume h: "load env = Some l \<and> fst (l (f\<lparr>loading := True\<rparr>)) = None
           \<and> \<not> no_instancePk (instancePk (snd (l (f\<lparr>loading := True\<rparr>))))
           \<and> loadInstance env (instancePk (snd (l (f\<lparr>loading := True\<rparr>)))) = Inl e"
  then have "refresh env f =
      (requestUpdate None None
         ((snd (l (f\<lparr>loading := True\<rparr>)))
            \<lparr>error := Some (parseAPIResponseError env e), loading := False\<rparr>),
       [Load, LoadInstance (instancePk (snd (l (f\<lparr>loading := True\<rparr>)))),
        ParseAPIResponseError e])"
    using assms by (simp add: refresh_def loadPromise_def Let_def)
  then show "snd (refresh env f) =
           [Load, LoadInstance (instancePk (snd (l (f\<lparr>loading := True\<rparr>)))),
            ParseAPIResponseError e]"
    and "error (fst (refresh env f)) = Some (parseAPIResponseError env e)"
    and "renderError env (fst (refresh env f)) =
             (if error_truthy env (parseAPIResponseError env e)
              then ErrorState ''fa-ban'' (msg env ''Failed to fetch model.'')
                     (pluckErrorDetail env (parseAPIResponseError env e))
              else Nothing)"
    by (simp_all add: renderError_def requestUpdate_def perform_def)
next
  assume h: "load env = None \<and> loadInstance env (instancePk f) = Inl e"
  then have "refresh env f =
      (requestUpdate None None
         (f\<lparr>loading := True, error := Some (parseAPIResponseError env e), loading := False\<rparr>),
       [LoadInstance (instancePk f), ParseAPIResponseError e])"
    using assms by (simp add: refresh_def loadPromise_def Let_def)
  then show "snd (refresh env f) = [LoadInstance (instancePk f), ParseAPIResponseError e]"
    and "error (fst (refresh env f)) = Some (parseAPIResponseError env e)"
    and "renderError env (fst (refresh env f)) =
             (if error_truthy env (parseAPIResponseError env e)
              then ErrorState ''fa-ban'' (msg env ''Failed to fetch model.'')
                     (pluckErrorDetail env (parseAPIResponseError env e))
              else Nothing)"
    by (simp_all add: renderError_def requestUpdate_def perform_def)
qed

theorem refresh_failure_is_rendered_witness:
  "\<not> loading (fst (refresh example_rejecting_load_env example_model))
   \<and> snd (refresh example_rejecting_load_env example_model)
       = [Load, ParseAPIResponseError ''HTTP 500'']
   \<and> error (fst (refresh example_rejecting_load_env example_model)) = Some ''parsed HTTP 500''
   \<and> renderError example_rejecting_load_env
        (fst (refresh example_rejecting_load_env example_model)) =
       ErrorState ''fa-ban'' ''Failed to fetch model.'' ''parsed HTTP 500''
   \<and> error (fst (refresh example_rejecting_instance_env example_model))
       = Some ''parsed HTTP 403''
   \<and> renderError example_rejecting_instance_env
        (fst (refresh example_rejecting_instance_env example_model)) =
       ErrorState ''fa-ban'' ''Failed to fetch model.'' ''parsed HTTP 403''
   \<and> error (fst (refresh example_failing_env example_model)) = Some ''parsed HTTP 404''
   \<and> renderError example_failing_env (fst (refresh example_failing_env example_model)) =
       ErrorState ''fa-ban'' ''Failed to fetch model.'' ''parsed HTTP 404''
   \<and> \<not> loading (fst (refresh example_loading_env (example_model\<lparr>loading := True\<rparr>)))"
  using refresh_failure_is_rendered [of example_model example_rejecting_load_env "''HTTP 500''"]
    refresh_failure_is_rendered [of example_model example_rejecting_instance_env "''HTTP 403''"]
    refresh_failure_is_rendered [of example_model example_failing_env "''HTTP 404''"]
    refresh_failure_is_rendered [of "example_model\<lparr>loading := True\<rparr>" example_loading_env
      "''HTTP 404''"]
  by (simp add: example_model_def example_rejecting_load_env_def
      example_rejecting_instance_env_def example_failing_env_def example_loading_env_def
      no_instancePk_iff)

text \<open>
  A parsed error that is falsy is stored and not rendered: \<open>renderError\<close> returns
  \<open>nothing\<close> for it.
\<close>

theorem refresh_falsy_error_counterexample:
  "error (fst (refresh example_falsy_env example_model))
     = Some (parseAPIResponseError example_falsy_env ''HTTP 404'')
   \<and> snd (refresh example_falsy_env example_model)
       = [LoadInstance (PkNumber (Finite 0)), ParseAPIResponseError ''HTTP 404'']
   \<and> renderError example_falsy_env (fst (refresh example_falsy_env example_model)) = Nothing
   \<and> renderError example_falsy_env (fst (refresh example_falsy_env example_model)) \<noteq>
       ErrorState ''fa-ban'' (msg example_falsy_env ''Failed to fetch model.'')
         (pluckErrorDetail example_falsy_env
            (parseAPIResponseError example_falsy_env ''HTTP 404''))"
  by (simp add: example_falsy_env_def example_model_def refresh_def loadPromise_def Let_def
      no_instancePk_iff renderError_def requestUpdate_def perform_def)

theorem refresh_guard_witness:
  "refresh example_clearing_env (example_model\<lparr>instancePk := PkString []\<rparr>)
     = (example_model\<lparr>instancePk := PkString []\<rparr>, [])
   \<and> hd (snd (refresh example_failing_env example_model)) = LoadInstance (PkNumber (Finite 0))
   \<and> inst (fst (refresh example_clearing_env example_model)) = None
   \<and> snd (refresh example_clearing_env example_model) = [Load]"
  using refresh_guard [of "PkNull" "example_model\<lparr>instancePk := PkString []\<rparr>" example_clearing_env "Finite 0"]
    refresh_guard [of "PkNull" example_model example_failing_env "Finite 0"]
    refresh_guard [of "PkNull" example_model example_clearing_env "Finite 0"]
  by (simp add: example_model_def example_failing_env_def example_clearing_env_def
      no_instancePk_iff loadPromise_def)

section \<open>Properties of AKTimestamp\<close>

lemma within_minute_abs:
  "within_minute t moment = (\<exists>m. moment = Some m \<and> \<bar>t - m\<bar> \<le> 60000)"
  by (cases moment) (auto simp: within_minute_def)

text \<open>
  Claim C4.  \<open>startInterval\<close> first clears the interval it holds.  It installs no
  interval when the timestamp is null, \<open>refresh\<close> is false, the document is not visible
  or the element is not visible; otherwise it installs one interval, of 1000 ms when
  the current time is within 60000 ms of the timestamp's time (both ends included) and
  of 60000 ms otherwise, and keeps its handle.
\<close>

theorem startInterval_intervals:
  "(no_interval w \<longrightarrow>
      timers (startInterval w) = (timers w)(interval (element w) := None))
   \<and> (\<not> no_interval w \<and> near w \<longrightarrow>
      (\<exists>ts. timestamp (element w) = Some ts \<and> timers (startInterval w) =
         ((timers w)(interval (element w) := None))
           (next_timer w \<mapsto> (SecondTick (getTime ts), 1000)))
      \<and> interval (element (startInterval w)) = next_timer w)
   \<and> (\<not> no_interval w \<and> \<not> near w \<longrightarrow>
      timers (startInterval w) =
         ((timers w)(interval (element w) := None))(next_timer w \<mapsto> (MinuteTick, 60000))
      \<and> interval (element (startInterval w)) = next_timer w)"
  by (cases "timestamp (element w)")
    (auto simp: startInterval_def stopInterval_def clearInterval_def install_def setInterval_def
      no_interval_def near_def within_minute_abs Let_def split: option.splits)

theorem startInterval_intervals_witness:
  "timers (startInterval example_window) = [8 \<mapsto> (SecondTick (Some 1000), 1000)]
   \<and> timers (startInterval (example_window\<lparr>clock := 61001\<rparr>)) = [8 \<mapsto> (MinuteTick, 60000)]
   \<and> timers (startInterval (example_window\<lparr>visibilityState := Hidden\<rparr>)) = Map.empty"
  using startInterval_intervals [of example_window]
    startInterval_intervals [of "example_window\<lparr>clock := 61001\<rparr>"]
    startInterval_intervals [of "example_window\<lparr>visibilityState := Hidden\<rparr>"]
  by (auto simp: example_window_def example_timestamp_def no_interval_def near_def visible_def
      get_key_def)

text \<open>
  Claim C10.  The setter of \<open>timestamp\<close> stores \<open>null\<close> for every falsy value (\<open>null\<close>,
  the empty string, \<open>NaN\<close> and 0) and a \<open>Date\<close> for every other; \<open>render\<close> gives the
  placeholder "-" with the label "None" exactly when the stored timestamp is \<open>null\<close> or
  its time is 0, so a timestamp at the epoch is rendered as the placeholder.
\<close>

theorem timestamp_placeholder:
  "(\<not> truthy v \<longrightarrow> timestamp (set_timestamp parse v el) = None)
   \<and> (truthy v \<longrightarrow> timestamp (set_timestamp parse v el) \<noteq> None)
   \<and> truthy v = (v \<noteq> InNull \<and> v \<noteq> InString [] \<and> v \<noteq> InNumber NaN
                  \<and> v \<noteq> InNumber (Finite 0))
   \<and> (timestamp_render env el = Inr (Span ''time'' ''None'' ''-''))
       = (timestamp el = None \<or> (\<exists>ts. timestamp el = Some ts \<and> getTime ts = Some 0))
   \<and> (timestamp el = Some (Date (Some 0)) \<longrightarrow>
        timestamp_render env el = Inr (Span ''time'' ''None'' ''-''))"
  by (cases v)
    (auto simp: set_timestamp_def truthy_def number_truthy_def timestamp_render_def Let_def
      split: option.splits number.splits)

theorem timestamp_placeholder_witness:
  "timestamp (set_timestamp (\<lambda>s. None) (InNumber (Finite 0)) example_timestamp) = None
   \<and> timestamp_render example_timestamp_env
        (set_timestamp (\<lambda>s. None) (InNumber (Finite 0)) example_timestamp)
       = Inr (Span ''time'' ''None'' ''-'')
   \<and> timestamp_render example_timestamp_env (example_timestamp\<lparr>timestamp := Some (Date (Some 0))\<rparr>)
       = Inr (Span ''time'' ''None'' ''-'')
   \<and> timestamp_render example_timestamp_env example_timestamp
       \<noteq> Inr (Span ''time'' ''None'' ''-'')"
  using timestamp_placeholder [of "InNumber (Finite 0)" "\<lambda>s. None" example_timestamp
      example_timestamp_env]
    timestamp_placeholder [of "InNumber (Finite 0)" "\<lambda>s. None"
      "set_timestamp (\<lambda>s. None) (InNumber (Finite 0)) example_timestamp" example_timestamp_env]
    timestamp_placeholder [of "InNumber (Finite 0)" "\<lambda>s. None"
      "example_timestamp\<lparr>timestamp := Some (Date (Some 0))\<rparr>" example_timestamp_env]
  by (simp add: example_timestamp_def)

section \<open>Properties of themeImage\<close>
















end
